theory Spec2Isabelle
  imports Complex_Main "HOL-Library.Product_Lexorder" "HOL-Library.Word"
begin

section \<open>Row reconstruction (\<^verbatim>\<open>scripts/paddle_ocr.py\<close>, \<^verbatim>\<open>build_clean_text\<close>)\<close>

text \<open>
  A fragment is the Python tuple \<^verbatim>\<open>(text, y, x)\<close>: the recognised text and the integer
  coordinates of the top-left corner of its box. Python integers are unbounded, hence
  \<^typ>\<open>int\<close>.
\<close>

type_synonym fragment = "string \<times> int \<times> int"

definition frag_text :: "fragment \<Rightarrow> string" where
  "frag_text f = fst f"

definition frag_y :: "fragment \<Rightarrow> int" where
  "frag_y f = fst (snd f)"

definition frag_x :: "fragment \<Rightarrow> int" where
  "frag_x f = snd (snd f)"

definition ROW_THRESHOLD :: int where
  "ROW_THRESHOLD = 50"

text \<open>
  Python's \<^verbatim>\<open>sep.join(parts)\<close>.
\<close>

fun join :: "string \<Rightarrow> string list \<Rightarrow> string" where
  "join sep [] = []"
| "join sep [s] = s"
| "join sep (s # t # ss) = s @ sep @ join sep (t # ss)"

text \<open>
  One iteration of the grouping loop (lines 56-60): \<^verbatim>\<open>rows[-1][0][1]\<close> is the \<open>y\<close> of
  the first fragment of the last row. Rows are only ever created with one element and
  extended at the end, so \<^verbatim>\<open>rows[-1][0]\<close> never raises (lemma \<open>group_rows_no_empty_row\<close>
  below).
\<close>

definition group_step :: "fragment list list \<Rightarrow> fragment \<Rightarrow> fragment list list" where
  "group_step rows f =
     (if rows \<noteq> [] \<and> \<bar>frag_y f - frag_y (hd (last rows))\<bar> < ROW_THRESHOLD
      then butlast rows @ [last rows @ [f]]
      else rows @ [[f]])"

definition group_rows :: "fragment list \<Rightarrow> fragment list list" where
  "group_rows fragments = foldl group_step [] fragments"

text \<open>
  The invariant of the grouping loop: no row is empty, and every fragment of a row is less
  than the threshold away from the row's first fragment.
\<close>

definition rows_ok :: "fragment list list \<Rightarrow> bool" where
  "rows_ok rows =
     (\<forall>row \<in> set rows.
        row \<noteq> [] \<and> (\<forall>f \<in> set row. \<bar>frag_y f - frag_y (hd row)\<bar> < ROW_THRESHOLD))"

text \<open>
  \<^verbatim>\<open>list.sort(key=...)\<close> is a stable sort, as is \<^const>\<open>sort_key\<close>; the key
  \<^verbatim>\<open>(f[1], f[2])\<close> is a tuple, compared lexicographically.
\<close>

definition sort_fragments :: "fragment list \<Rightarrow> fragment list" where
  "sort_fragments fragments = sort_key (\<lambda>f. (frag_y f, frag_x f)) fragments"

definition row_line :: "fragment list \<Rightarrow> string" where
  "row_line row = join ''    '' (map frag_text (sort_key frag_x row))"

definition build_rows :: "fragment list \<Rightarrow> fragment list list" where
  "build_rows fragments = group_rows (sort_fragments fragments)"

definition build_clean_text :: "fragment list \<Rightarrow> string" where
  "build_clean_text fragments =
     (if fragments = [] then ''[No text detected]''
      else join [CHR 0x0A] (map row_line (build_rows fragments)))"

section \<open>Fragment collection and page aggregation (\<^verbatim>\<open>scripts/paddle_ocr.py\<close>, \<^verbatim>\<open>extract\<close>)\<close>

text \<open>
  Exceptions are values. \<^verbatim>\<open>str(e)\<close>, which the f-string of line 136 interpolates, is
  the message the exception carries.
\<close>

datatype exn = FileNotFoundError string | ValueError string | OtherError string

fun exn_str :: "exn \<Rightarrow> string" where
  "exn_str (FileNotFoundError m) = m"
| "exn_str (ValueError m) = m"
| "exn_str (OtherError m) = m"

text \<open>
  Confidence scores and polygon coordinates are floating-point numbers in the source. The
  code only compares a score with the constant and takes minima and integer parts of
  coordinates, none of which rounds, so a finite float is modelled by the real number it
  denotes. The literal \<^verbatim>\<open>0.30\<close> denotes the double nearest to three tenths, whose
  significand is 5404319552844595 and whose exponent is -54; that number, slightly below
  three tenths, is the threshold.
\<close>

definition MIN_CONFIDENCE :: real where
  "MIN_CONFIDENCE = 5404319552844595 / 2 ^ 54"

type_synonym poly = "(real \<times> real) list"

text \<open>\<^verbatim>\<open>min(...)\<close> over a generator raises \<^verbatim>\<open>ValueError\<close> when there is nothing to iterate.\<close>

fun py_min :: "real list \<Rightarrow> exn + real" where
  "py_min [] = Inl (ValueError ''min() arg is an empty sequence'')"
| "py_min (v # vs) = Inr (fold min vs v)"

text \<open>\<^verbatim>\<open>int(v)\<close> truncates towards zero.\<close>

definition py_int :: "real \<Rightarrow> int" where
  "py_int v = (if 0 \<le> v then \<lfloor>v\<rfloor> else \<lceil>v\<rceil>)"

text \<open>
  \<^verbatim>\<open>str.strip()\<close> removes whitespace at both ends. Of the characters a \<^typ>\<open>char\<close>
  can hold, Python counts these as whitespace.
\<close>

definition is_space :: "char \<Rightarrow> bool" where
  "is_space c = (of_char c \<in> {9, 10, 11, 12, 13, 28, 29, 30, 31, 32, 133, 160 :: nat})"

definition strip :: "string \<Rightarrow> string" where
  "strip s = rev (dropWhile is_space (rev (dropWhile is_space s)))"

text \<open>
  Lines 118-120 and 128-130, the same three statements in both branches: the anchor of a
  retained recognition.
\<close>

definition make_fragment :: "string \<Rightarrow> poly \<Rightarrow> exn + fragment" where
  "make_fragment text poly =
     (case py_min (map fst poly) of
        Inl e \<Rightarrow> Inl e
      | Inr x_min \<Rightarrow>
          (case py_min (map snd poly) of
             Inl e \<Rightarrow> Inl e
           | Inr y_min \<Rightarrow> Inr (strip text, py_int y_min, py_int x_min)))"

text \<open>
  The loop of lines 115-120 over \<^verbatim>\<open>zip(rec_texts, rec_scores, dt_polys)\<close>, with the list
  \<^verbatim>\<open>fragments\<close> built so far.
\<close>

fun collect_structured :: "(string \<times> real \<times> poly) list \<Rightarrow> fragment list \<Rightarrow> exn + fragment list" where
  "collect_structured [] fragments = Inr fragments"
| "collect_structured ((text, score, poly) # rest) fragments =
     (if score < MIN_CONFIDENCE \<or> strip text = [] then collect_structured rest fragments
      else (case make_fragment text poly of
              Inl e \<Rightarrow> Inl e
            | Inr f \<Rightarrow> collect_structured rest (fragments @ [f])))"

text \<open>
  The loop of lines 124-130 over the legacy list; a line is \<^verbatim>\<open>[box, (text, score)]\<close>.
\<close>

fun collect_legacy :: "(poly \<times> string \<times> real) list \<Rightarrow> fragment list \<Rightarrow> exn + fragment list" where
  "collect_legacy [] fragments = Inr fragments"
| "collect_legacy ((box, text, score) # rest) fragments =
     (if score < MIN_CONFIDENCE \<or> strip text = [] then collect_legacy rest fragments
      else (case make_fragment text box of
              Inl e \<Rightarrow> Inl e
            | Inr f \<Rightarrow> collect_legacy rest (fragments @ [f])))"

text \<open>
  What \<^verbatim>\<open>result[0]\<close> can be: \<^verbatim>\<open>None\<close>, the mapping with the three parallel arrays, or
  the legacy list of lines. The value of \<^verbatim>\<open>ocr.ocr(img_path)\<close> itself is \<^verbatim>\<open>None\<close> or a
  list of these.
\<close>

datatype ocr_result =
    NoneResult
  | OCRResult (rec_texts: "string list") (rec_scores: "real list") (dt_polys: "poly list")
  | LegacyResult "(poly \<times> string \<times> real) list"

text \<open>
  Python truthiness, for \<^verbatim>\<open>not result\<close> and \<^verbatim>\<open>not result[0]\<close>: \<^verbatim>\<open>None\<close> and the empty
  list are falsy; a mapping that has keys is truthy whatever its arrays hold.
\<close>

fun falsy_list :: "'a list option \<Rightarrow> bool" where
  "falsy_list None = True"
| "falsy_list (Some xs) = (xs = [])"

fun falsy_result :: "ocr_result \<Rightarrow> bool" where
  "falsy_result NoneResult = True"
| "falsy_result (OCRResult ts ss ps) = False"
| "falsy_result (LegacyResult ls) = (ls = [])"

text \<open>
  The body of the \<^verbatim>\<open>try\<close> of lines 100-133 for one page, given the outcome of the engine
  call: it raises, or it yields the text appended to \<^verbatim>\<open>page_texts\<close>.
\<close>

fun page_body :: "exn + ocr_result list option \<Rightarrow> exn + string" where
  "page_body (Inl e) = Inl e"
| "page_body (Inr result) =
     (if falsy_list result \<or> falsy_result (hd (the result)) then Inr ''[No OCR results]''
      else (case hd (the result) of
              OCRResult ts ss ps \<Rightarrow>
                (case collect_structured (zip ts (zip ss ps)) [] of
                   Inl e \<Rightarrow> Inl e
                 | Inr fragments \<Rightarrow> Inr (build_clean_text fragments))
            | LegacyResult ls \<Rightarrow>
                (case collect_legacy ls [] of
                   Inl e \<Rightarrow> Inl e
                 | Inr fragments \<Rightarrow> Inr (build_clean_text fragments))
            | NoneResult \<Rightarrow> Inr ''[No OCR results]''))"

text \<open>The \<^verbatim>\<open>except Exception as e\<close> of lines 135-136 around it.\<close>

definition page_text :: "exn + ocr_result list option \<Rightarrow> string" where
  "page_text call =
     (case page_body call of
        Inl e \<Rightarrow> ''[PaddleOCR extraction failed: '' @ exn_str e @ '']''
      | Inr text \<Rightarrow> text)"

text \<open>
  Pages are named by their number \<open>n\<close>, standing for the path \<^verbatim>\<open>page_<n>.png\<close> in the
  image directory. The enumeration loop of lines 82-89 counts up from 1 while the file
  exists; \<open>present\<close> lists the numbers of the page files in the directory.
\<close>

function find_images :: "nat list \<Rightarrow> nat \<Rightarrow> nat list" where
  "find_images present page_num =
     (if page_num \<in> set present then page_num # find_images present (Suc page_num) else [])"
  by pat_completeness auto
termination
proof (relation "measure (\<lambda>(present, page_num). Suc (Max (set (0 # present))) - page_num)")
  show "wf (measure (\<lambda>(present, page_num). Suc (Max (set (0 # present))) - page_num))"
    by simp
next
  fix present :: "nat list" and page_num :: nat
  assume "page_num \<in> set present"
  then have "page_num \<le> Max (set (0 # present))"
    by (simp add: Max_ge)
  then show "((present, Suc page_num), (present, page_num))
               \<in> measure (\<lambda>(present, page_num). Suc (Max (set (0 # present))) - page_num)"
    by simp
qed

declare find_images.simps [simp del]

text \<open>The loop of lines 99-136: one text per image, in order.\<close>

fun ocr_pages :: "(nat \<Rightarrow> exn + ocr_result list option) \<Rightarrow> nat list \<Rightarrow> string list \<Rightarrow> string list" where
  "ocr_pages ocr [] page_texts = page_texts"
| "ocr_pages ocr (img # rest) page_texts = ocr_pages ocr rest (page_texts @ [page_text (ocr img)])"

record document =
  fullText :: string
  pages :: "string list"
  totalPages :: nat

text \<open>
  \<^verbatim>\<open>extract\<close> (the name is a keyword here, hence \<open>extract_ocr\<close>). The constructor
  \<^verbatim>\<open>PaddleOCR(...)\<close> of line 95 either raises or yields the engine, whose \<^verbatim>\<open>ocr\<close>
  method is then called once per page.
\<close>

definition extract_ocr ::
  "string \<Rightarrow> nat list \<Rightarrow> exn + (nat \<Rightarrow> exn + ocr_result list option) \<Rightarrow> exn + document" where
  "extract_ocr image_dir present engine =
     (let images = find_images present 1 in
      if images = [] then Inl (FileNotFoundError (''No page_*.png images found in '' @ image_dir))
      else (case engine of
              Inl e \<Rightarrow> Inl e
            | Inr ocr \<Rightarrow>
                (let page_texts = ocr_pages ocr images [] in
                 Inr \<lparr>fullText = join (''\<newline>\<newline>---\<newline>\<newline>'') page_texts,
                      pages = page_texts,
                      totalPages = length images\<rparr>)))"

section \<open>Size-capped encoding (\<^verbatim>\<open>scripts/vlm_preprocess.py\<close>, \<^verbatim>\<open>save_capped_jpeg\<close>)\<close>

type_synonym bytes = "8 word list"

definition MAX_JPEG_BYTES :: nat where
  "MAX_JPEG_BYTES = 5 * 1024 * 1024"

text \<open>
  The image library is a collaborator: the operations of a Pillow image that the two
  functions call are the fields of a record, over any type \<open>'img\<close> of images. Each
  operation that can raise returns a sum.
  \<^item> \<open>img_mode\<close>, \<open>img_size\<close>: the attributes \<^verbatim>\<open>img.mode\<close> and \<^verbatim>\<open>img.size\<close>;
  \<^item> \<open>img_convert\<close>: \<^verbatim>\<open>img.convert(mode)\<close>;
  \<^item> \<open>img_resize\<close>: \<^verbatim>\<open>img.resize((w, h), Image.LANCZOS)\<close>;
  \<^item> \<open>img_save_jpeg\<close>: \<^verbatim>\<open>img.save(buf, format="JPEG", quality=q)\<close> into a fresh buffer,
    yielding the buffer's bytes; \<^verbatim>\<open>buf.tell()\<close> is then their number;
  \<^item> \<open>img_rotate\<close>: \<^verbatim>\<open>img.rotate(angle, expand=True)\<close>.
\<close>

record 'img codec =
  img_mode :: "'img \<Rightarrow> string"
  img_size :: "'img \<Rightarrow> nat \<times> nat"
  img_convert :: "'img \<Rightarrow> string \<Rightarrow> exn + 'img"
  img_resize :: "'img \<Rightarrow> nat \<times> nat \<Rightarrow> exn + 'img"
  img_save_jpeg :: "'img \<Rightarrow> nat \<Rightarrow> exn + bytes"
  img_rotate :: "'img \<Rightarrow> int \<Rightarrow> exn + 'img"

text \<open>
  \<^verbatim>\<open>int(w * 0.85)\<close> for a dimension \<open>w\<close>. The product is a floating-point one in the
  source; the model takes the exact product, which has the same integer part for every
  dimension an image can have.
\<close>

definition scale_dim :: "nat \<Rightarrow> nat" where
  "scale_dim w = nat (py_int (real w * 0.85))"

text \<open>
  The \<^verbatim>\<open>while\<close> loop of lines 44-48, on the pair of the loop's variables \<^verbatim>\<open>img\<close> and
  \<^verbatim>\<open>buf\<close>. The source bounds the number of iterations nowhere, so the loop is a partial
  function: \<^const>\<open>None\<close> is a run that never leaves the loop, \<open>Some (Inl e)\<close> one that
  raises, \<open>Some (Inr buf)\<close> one that leaves it with \<open>buf\<close>.
\<close>

partial_function (option) cap_loop :: "'img codec \<Rightarrow> nat \<Rightarrow> 'img \<times> bytes \<Rightarrow> (exn + bytes) option" where
  "cap_loop c quality st =
     (if length (snd st) > MAX_JPEG_BYTES
      then (case img_resize c (fst st)
                   (scale_dim (fst (img_size c (fst st))), scale_dim (snd (img_size c (fst st)))) of
              Inl e \<Rightarrow> Some (Inl e)
            | Inr img' \<Rightarrow>
                (case img_save_jpeg c img' quality of
                   Inl e \<Rightarrow> Some (Inl e)
                 | Inr buf' \<Rightarrow> cap_loop c quality (img', buf')))
      else Some (Inr (snd st)))"

text \<open>
  \<^verbatim>\<open>save_capped_jpeg\<close> up to the bytes it hands to \<^verbatim>\<open>f.write\<close>; the caller records them
  under the output path.
\<close>

definition save_capped_jpeg :: "'img codec \<Rightarrow> 'img \<Rightarrow> nat \<Rightarrow> (exn + bytes) option" where
  "save_capped_jpeg c img quality =
     (case (if img_mode c img \<in> {''RGBA'', ''P''} then img_convert c img ''RGB'' else Inr img) of
        Inl e \<Rightarrow> Some (Inl e)
      | Inr img1 \<Rightarrow>
          (case img_save_jpeg c img1 quality of
             Inl e \<Rightarrow> Some (Inl e)
           | Inr buf \<Rightarrow> cap_loop c quality (img1, buf)))"

section \<open>The per-page pipeline (\<^verbatim>\<open>scripts/vlm_preprocess.py\<close>, \<^verbatim>\<open>preprocess\<close>)\<close>

text \<open>
  The files the function creates: the output images, keyed by page index (standing for
  \<^verbatim>\<open>page_<n>_pre.jpg\<close>), and the temporary files, named by the order of their creation;
  \<open>tmp_files\<close> lists those that exist.
\<close>

record files =
  out_files :: "nat \<rightharpoonup> bytes"
  tmp_files :: "nat list"
  tmp_count :: nat

text \<open>
  The dictionary \<^verbatim>\<open>info\<close>; the key \<^verbatim>\<open>"file"\<close> (field \<open>file_name\<close>) is absent until the
  page is saved.
\<close>

record page_info =
  page :: nat
  rotated :: int
  unwarped :: bool
  file_name :: "nat option"

text \<open>
  The collaborators of one run:
  \<^item> \<open>ori_predict n\<close>: lines 92-93 on page \<open>n\<close>, the label of the orientation model as an
    integer, or the exception of the call or of the conversion;
  \<^item> \<open>image_open n\<close>: \<^verbatim>\<open>Image.open(img_path)\<close>;
  \<^item> \<open>tmp_save img\<close>: \<^verbatim>\<open>img.save(tmp_path)\<close> of line 111, \<^const>\<open>None\<close> when it returns;
  \<^item> \<open>unwarp_predict input\<close>: lines 117-122 on the page's own file (\<open>Inl n\<close>) or on the
    temporary file that holds \<open>img\<close> (\<open>Inr img\<close>): an exception, or \<open>Some\<close> of the image
    built from \<^verbatim>\<open>doctr_img\<close> when that is an array, or \<^const>\<open>None\<close> when it is not.
\<close>

record 'img world =
  pil :: "'img codec"
  ori_predict :: "nat \<Rightarrow> exn + int"
  image_open :: "nat \<Rightarrow> exn + 'img"
  tmp_save :: "'img \<Rightarrow> exn option"
  unwarp_predict :: "nat + 'img \<Rightarrow> exn + 'img option"

text \<open>
  Step 2, lines 105-132: the inner \<^verbatim>\<open>try\<close> with its handler, which only logs. The stage
  returns the working image, the dictionary and the files as they are when it is left.
  The temporary file exists from line 109 on (\<^verbatim>\<open>delete=False\<close>); \<^verbatim>\<open>os.unlink\<close> is line 128.
\<close>

definition unwarp_stage ::
  "'img world \<Rightarrow> nat \<Rightarrow> int \<Rightarrow> 'img \<Rightarrow> page_info \<Rightarrow> files \<Rightarrow> 'img \<times> page_info \<times> files" where
  "unwarp_stage w img_path angle img info s =
     (if angle \<noteq> 0
      then (let tmp_path = tmp_count s;
                s1 = s\<lparr>tmp_files := tmp_path # tmp_files s, tmp_count := Suc (tmp_count s)\<rparr>
            in case tmp_save w img of
                 Some e \<Rightarrow> (img, info, s1)
               | None \<Rightarrow>
                   (case unwarp_predict w (Inr img) of
                      Inl e \<Rightarrow> (img, info, s1)
                    | Inr doctr_img \<Rightarrow>
                        (let s2 = s1\<lparr>tmp_files := removeAll tmp_path (tmp_files s1)\<rparr>
                         in case doctr_img of
                              Some img' \<Rightarrow> (img', info\<lparr>unwarped := True\<rparr>, s2)
                            | None \<Rightarrow> (img, info, s2))))
      else (case unwarp_predict w (Inl img_path) of
              Inl e \<Rightarrow> (img, info, s)
            | Inr doctr_img \<Rightarrow>
                (case doctr_img of
                   Some img' \<Rightarrow> (img', info\<lparr>unwarped := True\<rparr>, s)
                 | None \<Rightarrow> (img, info, s))))"

text \<open>
  The body of the outer \<^verbatim>\<open>try\<close>, lines 91-142. When a statement raises, the dictionary
  and the files are left as they were at that point, so the exception comes with both.
\<close>

definition page_try ::
  "'img world \<Rightarrow> nat \<Rightarrow> nat \<Rightarrow> page_info \<Rightarrow> files
     \<Rightarrow> (exn \<times> page_info \<times> files + page_info \<times> files) option" where
  "page_try w img_path page_idx info s =
     (case ori_predict w img_path of
        Inl e \<Rightarrow> Some (Inl (e, info, s))
      | Inr angle \<Rightarrow>
          (let info1 = info\<lparr>rotated := angle\<rparr>
           in case image_open w img_path of
                Inl e \<Rightarrow> Some (Inl (e, info1, s))
              | Inr img0 \<Rightarrow>
                  (case (if angle \<noteq> 0 then img_rotate (pil w) img0 angle else Inr img0) of
                     Inl e \<Rightarrow> Some (Inl (e, info1, s))
                   | Inr img \<Rightarrow>
                       (case unwarp_stage w img_path angle img info1 s of
                          (img2, info2, s2) \<Rightarrow>
                            (case save_capped_jpeg (pil w) img2 90 of
                               None \<Rightarrow> None
                             | Some (Inl e) \<Rightarrow> Some (Inl (e, info2, s2))
                             | Some (Inr buf) \<Rightarrow>
                                 Some (Inr (info2\<lparr>file_name := Some page_idx\<rparr>,
                                            s2\<lparr>out_files := (out_files s2)(page_idx \<mapsto> buf)\<rparr>)))))))"

text \<open>
  One iteration of the loop over the images, lines 87-154: the \<^verbatim>\<open>try\<close> and the handler
  of lines 144-152, which opens the original again and encodes it. Nothing surrounds the
  handler, so what it raises leaves \<^verbatim>\<open>preprocess\<close>.
\<close>

definition process_page ::
  "'img world \<Rightarrow> nat \<Rightarrow> nat \<Rightarrow> files \<Rightarrow> (exn \<times> files + page_info \<times> files) option" where
  "process_page w img_path page_idx s =
     (case page_try w img_path page_idx
             \<lparr>page = page_idx, rotated = 0, unwarped = False, file_name = None\<rparr> s of
        None \<Rightarrow> None
      | Some (Inr r) \<Rightarrow> Some (Inr r)
      | Some (Inl (e, info, s1)) \<Rightarrow>
          (case image_open w img_path of
             Inl e2 \<Rightarrow> Some (Inl (e2, s1))
           | Inr img \<Rightarrow>
               (case save_capped_jpeg (pil w) img 90 of
                  None \<Rightarrow> None
                | Some (Inl e2) \<Rightarrow> Some (Inl (e2, s1))
                | Some (Inr buf) \<Rightarrow>
                    Some (Inr (info\<lparr>file_name := Some page_idx\<rparr>,
                               s1\<lparr>out_files := (out_files s1)(page_idx \<mapsto> buf)\<rparr>)))))"



section \<open>Concrete collaborators for the examples\<close>

text \<open>
  A small image library: an image is its pair of dimensions, resizing yields the
  dimensions asked for, and the encoder writes one byte per pixel.
\<close>

definition toy_codec :: "(nat \<times> nat) codec" where
  "toy_codec =
     \<lparr>img_mode = (\<lambda>img. ''RGB''),
      img_size = (\<lambda>img. img),
      img_convert = (\<lambda>img mode. Inr img),
      img_resize = (\<lambda>img sz. Inr sz),
      img_save_jpeg = (\<lambda>img quality. Inr (replicate (fst img * snd img) 0)),
      img_rotate = (\<lambda>img angle. Inr (snd img, fst img))\<rparr>"

text \<open>
  A library that behaves as Pillow does at the edge: resizing to a zero width or height
  and saving an empty image as JPEG raise \<^verbatim>\<open>ValueError\<close>. Its encoder is the least
  favourable one for the loop: the output of every other image is one byte over the
  ceiling.
\<close>

definition pillow_like :: "(nat \<times> nat) codec" where
  "pillow_like =
     toy_codec
       \<lparr>img_resize :=
          (\<lambda>img sz. if fst sz = 0 \<or> snd sz = 0
                    then Inl (ValueError ''height and width must be > 0'')
                    else Inr sz),
        img_save_jpeg :=
          (\<lambda>img quality. if fst img = 0 \<or> snd img = 0
                         then Inl (ValueError ''cannot write empty image as JPEG'')
                         else Inr (replicate (Suc MAX_JPEG_BYTES) 0))\<rparr>"

text \<open>
  Runs of the pipeline on that library: the orientation model answers 90, every page
  opens as a 100 by 200 image, and the unwarping model returns something that is not an
  array (\<open>toy_world\<close>) or raises (\<open>leak_world\<close>); \<open>unreadable_world\<close> has pages that
  cannot be opened, \<open>flaky_world\<close> an orientation model that raises on page 1.
\<close>

definition files0 :: files where
  "files0 = \<lparr>out_files = Map.empty, tmp_files = [], tmp_count = 0\<rparr>"

definition toy_world :: "(nat \<times> nat) world" where
  "toy_world =
     \<lparr>pil = toy_codec,
      ori_predict = (\<lambda>n. Inr 90),
      image_open = (\<lambda>n. Inr (100, 200)),
      tmp_save = (\<lambda>img. None),
      unwarp_predict = (\<lambda>input. Inr None)\<rparr>"

definition leak_world :: "(nat \<times> nat) world" where
  "leak_world = toy_world\<lparr>unwarp_predict := (\<lambda>input. Inl (OtherError ''unwarp failed''))\<rparr>"



section \<open>Properties of the row reconstruction\<close>

lemmas reconstruct_defs =
  build_clean_text_def build_rows_def group_rows_def group_step_def sort_fragments_def
  row_line_def frag_text_def frag_y_def frag_x_def ROW_THRESHOLD_def

text \<open>
  C7. On the empty list of fragments \<^verbatim>\<open>build_clean_text\<close> returns the sentinel
  \<^verbatim>\<open>[No text detected]\<close>: a value, not an exception, and not the empty string.
\<close>

theorem build_clean_text_empty:
  "build_clean_text [] = ''[No text detected]'' \<and> build_clean_text [] \<noteq> ''''"
  by (simp add: build_clean_text_def)

text \<open>
  C5. On the four fragments Milk, $3.99, Eggs, $4.50 of the example the function builds
  exactly two rows and returns the two lines \<^verbatim>\<open>Milk    $3.99\<close> and \<^verbatim>\<open>Eggs    $4.50\<close>
  joined by a newline.
\<close>

theorem build_clean_text_milk_eggs:
  "length (build_rows [(''Milk'', 100, 10), (''$3.99'', 102, 300),
                       (''Eggs'', 200, 10), (''$4.50'', 198, 300)]) = 2
   \<and> build_clean_text [(''Milk'', 100, 10), (''$3.99'', 102, 300),
                        (''Eggs'', 200, 10), (''$4.50'', 198, 300)]
       = ''Milk    $3.99'' @ [CHR 0x0A] @ ''Eggs    $4.50''"
  by (simp add: reconstruct_defs)

lemma group_step_rows_ok:
  assumes "rows_ok rows"
  shows "rows_ok (group_step rows g)"
proof (cases "rows \<noteq> [] \<and> \<bar>frag_y g - frag_y (hd (last rows))\<bar> < ROW_THRESHOLD")
  case True
  then have ne: "rows \<noteq> []" and near: "\<bar>frag_y g - frag_y (hd (last rows))\<bar> < ROW_THRESHOLD"
    by simp_all
  from ne have split: "rows = butlast rows @ [last rows]" by simp
  from assms split have bl: "rows_ok (butlast rows)"
    unfolding rows_ok_def by (metis in_set_butlastD)
  from assms ne have lr: "last rows \<noteq> []" "\<forall>f \<in> set (last rows). \<bar>frag_y f - frag_y (hd (last rows))\<bar> < ROW_THRESHOLD"
    unfolding rows_ok_def by (simp_all add: last_in_set)
  from lr near have "rows_ok [last rows @ [g]]"
    unfolding rows_ok_def by (auto simp: ROW_THRESHOLD_def)
  with bl have "rows_ok (butlast rows @ [last rows @ [g]])"
    unfolding rows_ok_def by auto
  with True show ?thesis by (simp add: group_step_def)
next
  case False
  have "rows_ok [[g]]" unfolding rows_ok_def by (simp add: ROW_THRESHOLD_def)
  with assms have "rows_ok (rows @ [[g]])" unfolding rows_ok_def by auto
  with False show ?thesis by (auto simp add: group_step_def)
qed

lemma foldl_group_step_rows_ok:
  "rows_ok rows \<Longrightarrow> rows_ok (foldl group_step rows fs)"
  by (induction fs arbitrary: rows) (simp_all add: group_step_rows_ok)

lemma group_rows_no_empty_row: "rows_ok (group_rows fs)"
  unfolding group_rows_def by (rule foldl_group_step_rows_ok) (simp add: rows_ok_def)

lemma concat_group_step: "concat (group_step rows g) = concat rows @ [g]"
proof (cases "rows = []")
  case True
  then show ?thesis by (simp add: group_step_def)
next
  case False
  then have "rows = butlast rows @ [last rows]" by simp
  then have "concat rows = concat (butlast rows) @ last rows"
    by (metis concat_append concat.simps append_Nil2)
  then show ?thesis by (simp add: group_step_def)
qed

lemma concat_foldl_group_step: "concat (foldl group_step rows fs) = concat rows @ fs"
  by (induction fs arbitrary: rows) (simp_all add: concat_group_step)

lemma concat_group_rows: "concat (group_rows fs) = fs"
  by (simp add: group_rows_def concat_foldl_group_step)

lemma group_rows_snoc: "group_rows (fs @ [g]) = group_step (group_rows fs) g"
  by (simp add: group_rows_def)

text \<open>
  C1, as the code has it. The grouping loop compares each fragment with the first
  fragment of the current row only: with at least one fragment grouped already, the next
  fragment \<open>g\<close> is appended to the last row when its \<open>y\<close> is less than 50 from the \<open>y\<close> of
  that row's first fragment, and starts a new row otherwise, whatever its distance to
  its predecessor. Hence every fragment of a row is less than 50 from the row's first
  fragment, and the rows, read in order, are the input sequence.
\<close>

theorem group_rows_anchor_rule:
  assumes "fragments \<noteq> []"
  shows "group_rows (fragments @ [g]) =
           (if \<bar>frag_y g - frag_y (hd (last (group_rows fragments)))\<bar> < ROW_THRESHOLD
            then butlast (group_rows fragments) @ [last (group_rows fragments) @ [g]]
            else group_rows fragments @ [[g]])
         \<and> (\<forall>row \<in> set (group_rows fragments).
               row \<noteq> [] \<and> (\<forall>f \<in> set row. \<bar>frag_y f - frag_y (hd row)\<bar> < ROW_THRESHOLD))
         \<and> concat (group_rows fragments) = fragments"
proof -
  from assms have "group_rows fragments \<noteq> []"
    using concat_group_rows [of fragments] by auto
  then have "group_rows (fragments @ [g]) =
           (if \<bar>frag_y g - frag_y (hd (last (group_rows fragments)))\<bar> < ROW_THRESHOLD
            then butlast (group_rows fragments) @ [last (group_rows fragments) @ [g]]
            else group_rows fragments @ [[g]])"
    by (simp add: group_rows_snoc group_step_def)
  moreover have "\<forall>row \<in> set (group_rows fragments).
               row \<noteq> [] \<and> (\<forall>f \<in> set row. \<bar>frag_y f - frag_y (hd row)\<bar> < ROW_THRESHOLD)"
    using group_rows_no_empty_row [of fragments] by (simp add: rows_ok_def)
  ultimately show ?thesis by (simp add: concat_group_rows)
qed

theorem group_rows_anchor_rule_witness:
  "[(''a'', 0, 0), (''b'', 30, 0)] \<noteq> ([] :: fragment list)
   \<and> group_rows ([(''a'', 0, 0), (''b'', 30, 0)] @ [(''c'', 60, 0)])
       = [[(''a'', 0, 0), (''b'', 30, 0)], [(''c'', 60, 0)]]"
  using group_rows_anchor_rule [of "[(''a'', 0, 0), (''b'', 30, 0)]" "(''c'', 60, 0)"]
  by (simp add: group_rows_def group_step_def frag_y_def ROW_THRESHOLD_def)

text \<open>
  C1 as stated fails: three fragments at \<open>y = 0, 30, 60\<close> form a chain, each less than 50
  from its predecessor, the third 60 from the row's first fragment; the chain is split
  after the second.
\<close>

theorem chain_splits:
  "\<bar>frag_y (''b'', 30, 0) - frag_y (''a'', 0, 0)\<bar> < ROW_THRESHOLD
   \<and> \<bar>frag_y (''c'', 60, 0) - frag_y (''b'', 30, 0)\<bar> < ROW_THRESHOLD
   \<and> \<bar>frag_y (''c'', 60, 0) - frag_y (''a'', 0, 0)\<bar> \<ge> ROW_THRESHOLD
   \<and> build_rows [(''a'', 0, 0), (''b'', 30, 0), (''c'', 60, 0)]
       = [[(''a'', 0, 0), (''b'', 30, 0)], [(''c'', 60, 0)]]"
  by (simp add: reconstruct_defs)

section \<open>Properties of the fragment collector and the text path\<close>

lemma ocr_pages_map:
  "ocr_pages ocr images page_texts = page_texts @ map (\<lambda>p. page_text (ocr p)) images"
  by (induction images arbitrary: page_texts) simp_all

lemma page_text_raised:
  "page_text (Inl e) = ''[PaddleOCR extraction failed: '' @ exn_str e @ '']''"
  by (simp add: page_text_def)

lemma find_images_12: "find_images [Suc 0, 2] (Suc 0) = [Suc 0, 2]"
  by code_simp

lemma find_images_1: "find_images [Suc 0] (Suc 0) = [Suc 0]"
  by code_simp

text \<open>
  C2, as the code has it. With at least one page image and the engine constructed,
  \<^verbatim>\<open>extract\<close> returns a document and raises nothing, whatever the engine does on the
  pages. The text of each page is a function of the outcome of the engine's call on that
  page alone, so no page affects another; and the text of a page whose call raises \<open>e\<close> is
  \<^verbatim>\<open>[PaddleOCR extraction failed: <str(e)>]\<close>.
\<close>

theorem ocr_failure_contained:
  assumes "find_images present 1 \<noteq> []"
  shows "\<exists>doc. extract_ocr image_dir present (Inr ocr) = Inr doc
           \<and> pages doc = map (\<lambda>p. page_text (ocr p)) (find_images present 1)
           \<and> (\<forall>p e. ocr p = Inl e \<longrightarrow>
                 page_text (ocr p) = ''[PaddleOCR extraction failed: '' @ exn_str e @ '']'')"
  using assms by (simp add: extract_ocr_def Let_def ocr_pages_map page_text_raised)

theorem ocr_failure_contained_witness:
  "find_images [1, 2] 1 \<noteq> []
   \<and> (\<exists>doc. extract_ocr ''d'' [1, 2]
               (Inr (\<lambda>p. if p = 1 then Inl (OtherError ''boom'') else Inr None)) = Inr doc
          \<and> pages doc = [''[PaddleOCR extraction failed: boom]'', ''[No OCR results]''])"
proof -
  have ne: "find_images [1, 2] 1 \<noteq> []"
    by (simp add: find_images_12)
  show ?thesis
    using ne ocr_failure_contained [OF ne, of "''d''"
        "\<lambda>p. if p = 1 then Inl (OtherError ''boom'') else Inr None"]
    by (auto simp add: find_images_12 page_text_def)
qed

text \<open>
  C2 as stated fails on the wording of the placeholder: for a call that raises with the
  message \<^verbatim>\<open>boom\<close> the page's text is \<^verbatim>\<open>[PaddleOCR extraction failed: boom]\<close>, which is not
  \<^verbatim>\<open>[OCR extraction failed: boom]\<close>.
\<close>

theorem ocr_failure_placeholder_text:
  "pages (projr (extract_ocr ''d'' [1] (Inr (\<lambda>p. Inl (OtherError ''boom'')))))
     = [''[PaddleOCR extraction failed: boom]'']
   \<and> pages (projr (extract_ocr ''d'' [1] (Inr (\<lambda>p. Inl (OtherError ''boom'')))))
     \<noteq> [''[OCR extraction failed: boom]'']"
  by (simp add: extract_ocr_def page_text_def find_images_1)

lemma collect_structured_below:
  "score < MIN_CONFIDENCE \<Longrightarrow>
   collect_structured (pre @ (text, score, poly) # post) acc = collect_structured (pre @ post) acc"
  by (induction pre acc rule: collect_structured.induct) (simp_all split: sum.splits)

lemma collect_legacy_below:
  "score < MIN_CONFIDENCE \<Longrightarrow>
   collect_legacy (pre @ (box, text, score) # post) acc = collect_legacy (pre @ post) acc"
  by (induction pre acc rule: collect_legacy.induct) (simp_all split: sum.splits)

lemma collect_structured_acc:
  "collect_structured items acc = Inr frags \<Longrightarrow> \<exists>more. frags = acc @ more"
  by (induction items acc rule: collect_structured.induct) (auto split: if_splits sum.splits)

lemma collect_legacy_acc:
  "collect_legacy items acc = Inr frags \<Longrightarrow> \<exists>more. frags = acc @ more"
  by (induction items acc rule: collect_legacy.induct) (auto split: if_splits sum.splits)

lemma collect_structured_at:
  assumes "MIN_CONFIDENCE \<le> score" and "strip text \<noteq> []"
    and "collect_structured (pre @ (text, score, poly) # post) acc = Inr frags"
  shows "\<exists>f. make_fragment text poly = Inr f \<and> f \<in> set frags"
  using assms
proof (induction pre acc rule: collect_structured.induct)
  case (1 fragments)
  then show ?case
    by (auto split: sum.splits dest!: collect_structured_acc)
next
  case (2 text' score' poly' rest fragments)
  then show ?case
    by (auto split: if_splits sum.splits)
qed

lemma collect_legacy_at:
  assumes "MIN_CONFIDENCE \<le> score" and "strip text \<noteq> []"
    and "collect_legacy (pre @ (box, text, score) # post) acc = Inr frags"
  shows "\<exists>f. make_fragment text box = Inr f \<and> f \<in> set frags"
  using assms
proof (induction pre acc rule: collect_legacy.induct)
  case (1 fragments)
  then show ?case
    by (auto split: sum.splits dest!: collect_legacy_acc)
next
  case (2 box' text' score' rest fragments)
  then show ?case
    by (auto split: if_splits sum.splits)
qed

text \<open>
  C6. In both loops (over the zipped parallel arrays, and over the legacy list of lines) a
  recognition whose score is strictly below the threshold is dropped: the loop's outcome
  is the one it has without that recognition. A recognition whose score is not below the
  threshold, and in particular one whose score is the threshold itself (the double that
  \<^verbatim>\<open>0.30\<close> denotes), passes the confidence test: when its stripped text is not empty (the
  other filter) and the loop returns, its fragment is among those returned.
\<close>

theorem confidence_threshold:
  "(score < MIN_CONFIDENCE \<longrightarrow>
      collect_structured (pre @ (text, score, poly) # post) acc = collect_structured (pre @ post) acc
      \<and> collect_legacy (pre' @ (poly, text, score) # post') acc = collect_legacy (pre' @ post') acc)
   \<and> (MIN_CONFIDENCE \<le> score \<and> strip text \<noteq> [] \<longrightarrow>
        (\<forall>frags. collect_structured (pre @ (text, score, poly) # post) acc = Inr frags \<longrightarrow>
                  (\<exists>f. make_fragment text poly = Inr f \<and> f \<in> set frags))
        \<and> (\<forall>frags. collect_legacy (pre' @ (poly, text, score) # post') acc = Inr frags \<longrightarrow>
                  (\<exists>f. make_fragment text poly = Inr f \<and> f \<in> set frags)))"
proof (intro conjI impI allI)
  assume "score < MIN_CONFIDENCE"
  then show "collect_structured (pre @ (text, score, poly) # post) acc
               = collect_structured (pre @ post) acc"
    by (rule collect_structured_below)
next
  assume "score < MIN_CONFIDENCE"
  then show "collect_legacy (pre' @ (poly, text, score) # post') acc
               = collect_legacy (pre' @ post') acc"
    by (rule collect_legacy_below)
next
  fix frags
  assume "MIN_CONFIDENCE \<le> score \<and> strip text \<noteq> []"
    and "collect_structured (pre @ (text, score, poly) # post) acc = Inr frags"
  then show "\<exists>f. make_fragment text poly = Inr f \<and> f \<in> set frags"
    using collect_structured_at by blast
next
  fix frags
  assume "MIN_CONFIDENCE \<le> score \<and> strip text \<noteq> []"
    and "collect_legacy (pre' @ (poly, text, score) # post') acc = Inr frags"
  then show "\<exists>f. make_fragment text poly = Inr f \<and> f \<in> set frags"
    using collect_legacy_at by blast
qed

lemma strip_Milk: "strip ''Milk'' = ''Milk''"
  by (simp add: strip_def is_space_def)

lemma collect_at_threshold:
  "collect_structured [(''Milk'', MIN_CONFIDENCE, [(10, 100), (90, 120)])] [] = Inr [(''Milk'', 100, 10)]"
  "collect_legacy [([(10, 100), (90, 120)], ''Milk'', MIN_CONFIDENCE)] [] = Inr [(''Milk'', 100, 10)]"
  by (simp_all add: strip_Milk make_fragment_def py_int_def)

text \<open>
  The example: a recognition scored 0.25 is dropped and one scored exactly the threshold
  is kept, in both shapes.
\<close>

theorem confidence_threshold_witness:
  "collect_structured [(''Eggs'', 0.25, [(300, 198)]), (''Milk'', MIN_CONFIDENCE, [(10, 100), (90, 120)])] []
     = Inr [(''Milk'', 100, 10)]
   \<and> collect_legacy [([(300, 198)], ''Eggs'', 0.25), ([(10, 100), (90, 120)], ''Milk'', MIN_CONFIDENCE)] []
     = Inr [(''Milk'', 100, 10)]
   \<and> (\<exists>f. make_fragment ''Milk'' [(10, 100), (90, 120)] = Inr f \<and> f \<in> set [(''Milk'', 100, 10)])"
proof -
  have lo: "(0.25::real) < MIN_CONFIDENCE"
    by (simp add: MIN_CONFIDENCE_def)
  have ne: "strip ''Milk'' \<noteq> []"
    by (simp add: strip_Milk)
  have below:
    "collect_structured ([] @ (''Eggs'', 0.25, [(300, 198)])
         # [(''Milk'', MIN_CONFIDENCE, [(10, 100), (90, 120)])]) []
       = collect_structured ([] @ [(''Milk'', MIN_CONFIDENCE, [(10, 100), (90, 120)])]) []
     \<and> collect_legacy ([] @ ([(300, 198)], ''Eggs'', 0.25)
         # [([(10, 100), (90, 120)], ''Milk'', MIN_CONFIDENCE)]) []
       = collect_legacy ([] @ [([(10, 100), (90, 120)], ''Milk'', MIN_CONFIDENCE)]) []"
    using lo confidence_threshold [of "0.25" "[]" "''Eggs''" "[(300, 198)]"
        "[(''Milk'', MIN_CONFIDENCE, [(10, 100), (90, 120)])]" "[]" "[]"
        "[([(10, 100), (90, 120)], ''Milk'', MIN_CONFIDENCE)]"]
    by blast
  have at: "\<exists>f. make_fragment ''Milk'' [(10, 100), (90, 120)] = Inr f \<and> f \<in> set [(''Milk'', 100, 10)]"
    using ne collect_at_threshold(1)
      confidence_threshold [of MIN_CONFIDENCE "[]" "''Milk''" "[(10, 100), (90, 120)]" "[]" "[]" "[]" "[]"]
    by simp
  have structured:
    "collect_structured [(''Eggs'', 0.25, [(300, 198)]), (''Milk'', MIN_CONFIDENCE, [(10, 100), (90, 120)])] []
       = Inr [(''Milk'', 100, 10)]"
    using below collect_at_threshold(1) by (simp only: append_Nil)
  have legacy:
    "collect_legacy [([(300, 198)], ''Eggs'', 0.25), ([(10, 100), (90, 120)], ''Milk'', MIN_CONFIDENCE)] []
       = Inr [(''Milk'', 100, 10)]"
    using below collect_at_threshold(2) by (simp only: append_Nil)
  from structured legacy at show ?thesis
    by (intro conjI)
qed

lemma page_body_falsy:
  "falsy_list result \<or> falsy_result (hd (the result)) \<Longrightarrow> page_body (Inr result) = Inr ''[No OCR results]''"
  by simp

text \<open>
  C10, as the code has it. When the value of the engine's call is falsy (\<^verbatim>\<open>None\<close>, an empty
  list, or a list whose first element is \<^verbatim>\<open>None\<close> or an empty list) the page's text is
  \<^verbatim>\<open>[No OCR results]\<close>, a string different from the sentinel \<^verbatim>\<open>[No text detected]\<close> and from
  every extraction-failure placeholder. A mapping is truthy whatever its arrays hold:
  when they yield no recognition the page's text is the sentinel.
\<close>

theorem no_ocr_results:
  "(falsy_list result \<or> falsy_result (hd (the result)) \<longrightarrow>
      page_text (Inr result) = ''[No OCR results]'')
   \<and> (zip ts (zip ss ps) = [] \<longrightarrow>
        page_text (Inr (Some (OCRResult ts ss ps # rest))) = ''[No text detected]'')
   \<and> ''[No OCR results]'' \<noteq> ''[No text detected]''
   \<and> ''[No OCR results]'' \<noteq> ''[PaddleOCR extraction failed: '' @ m @ '']''"
  by (simp add: page_text_def build_clean_text_def)

theorem no_ocr_results_witness:
  "(falsy_list (Some [LegacyResult []]) \<or> falsy_result (hd (the (Some [LegacyResult []]))))
   \<and> page_text (Inr (Some [LegacyResult []])) = ''[No OCR results]''
   \<and> zip ([] :: string list) (zip [] ([] :: poly list)) = [] 
   \<and> page_text (Inr (Some [OCRResult [] [] []])) = ''[No text detected]''"
  using no_ocr_results [of "Some [LegacyResult []]" "[]" "[]" "[]" "[]"]
  by simp

text \<open>
  C10 as stated fails for the mapping whose arrays are empty: there is no recognition at
  all, the value is not falsy, and the page's text is \<^verbatim>\<open>[No text detected]\<close>.
\<close>

theorem empty_mapping_is_truthy:
  "\<not> (falsy_list (Some [OCRResult [] [] []]) \<or> falsy_result (hd (the (Some [OCRResult [] [] []]))))
   \<and> page_text (Inr (Some [OCRResult [] [] []])) = ''[No text detected]''
   \<and> page_text (Inr (Some [OCRResult [] [] []])) \<noteq> ''[No OCR results]''"
  by (simp add: page_text_def build_clean_text_def)

section \<open>Properties of the size-capped encoding\<close>

lemma cap_loop_result:
  assumes "cap_loop c q st = Some r"
  shows "img_save_jpeg c (fst st) q = Inr (snd st) \<longrightarrow>
           (\<forall>out. r = Inr out \<longrightarrow>
              length out \<le> MAX_JPEG_BYTES \<and> (\<exists>img'. img_save_jpeg c img' q = Inr out))"
proof (rule cap_loop.raw_induct [OF _ assms])
  fix loop :: "'a codec \<Rightarrow> nat \<Rightarrow> 'a \<times> bytes \<Rightarrow> (exn + bytes) option"
    and c q st r
  assume IH: "\<And>c q st r. loop c q st = Some r \<Longrightarrow>
                img_save_jpeg c (fst st) q = Inr (snd st) \<longrightarrow>
                  (\<forall>out. r = Inr out \<longrightarrow>
                     length out \<le> MAX_JPEG_BYTES \<and> (\<exists>img'. img_save_jpeg c img' q = Inr out))"
    and step: "(if length (snd st) > MAX_JPEG_BYTES
                then (case img_resize c (fst st)
                             (scale_dim (fst (img_size c (fst st))),
                              scale_dim (snd (img_size c (fst st)))) of
                        Inl e \<Rightarrow> Some (Inl e)
                      | Inr img' \<Rightarrow>
                          (case img_save_jpeg c img' q of
                             Inl e \<Rightarrow> Some (Inl e)
                           | Inr buf' \<Rightarrow> loop c q (img', buf')))
                else Some (Inr (snd st))) = Some r"
  show "img_save_jpeg c (fst st) q = Inr (snd st) \<longrightarrow>
          (\<forall>out. r = Inr out \<longrightarrow>
             length out \<le> MAX_JPEG_BYTES \<and> (\<exists>img'. img_save_jpeg c img' q = Inr out))"
  proof (cases "length (snd st) > MAX_JPEG_BYTES")
    case False
    with step show ?thesis by auto
  next
    case True
    show ?thesis
    proof (cases "img_resize c (fst st)
                    (scale_dim (fst (img_size c (fst st))), scale_dim (snd (img_size c (fst st))))")
      case (Inl e)
      with step True show ?thesis by auto
    next
      case resized: (Inr img')
      show ?thesis
      proof (cases "img_save_jpeg c img' q")
        case (Inl e)
        with step True resized show ?thesis by auto
      next
        case (Inr buf')
        with step True resized have "loop c q (img', buf') = Some r"
          by simp
        from IH [OF this] Inr show ?thesis
          by simp
      qed
    qed
  qed
qed

text \<open>
  C8. Whenever \<^verbatim>\<open>save_capped_jpeg\<close> returns, the bytes it writes are at most
  \<open>MAX_JPEG_BYTES\<close> (5 MiB) long, and they are the encoding of an image: the loop is left
  only with a buffer that does not exceed the ceiling.
\<close>

theorem save_capped_jpeg_bound:
  assumes "save_capped_jpeg c img quality = Some (Inr out)"
  shows "length out \<le> MAX_JPEG_BYTES \<and> (\<exists>img'. img_save_jpeg c img' quality = Inr out)"
  using assms cap_loop_result
  by (fastforce simp add: save_capped_jpeg_def split: sum.splits if_splits)

lemma scale_dim_eq: "scale_dim w = (w * 85) div 100"
proof -
  have eq: "real w * 0.85 = real (w * 85) / real 100"
    by simp
  have "\<lfloor>real w * 0.85\<rfloor> = int ((w * 85) div 100)"
    unfolding eq by (rule floor_divide_of_nat_eq)
  moreover have "0 \<le> real w * 0.85"
    by simp
  ultimately show ?thesis
    by (simp add: scale_dim_def py_int_def)
qed

lemma scale_dim_le: "scale_dim w \<le> w"
  by (simp add: scale_dim_eq)

lemma scale_dim_less: "0 < w \<Longrightarrow> scale_dim w < w"
  by (simp add: scale_dim_eq)

lemma toy_save_4000:
  "save_capped_jpeg toy_codec (4000, 2000) 90 = Some (Inr (replicate (2890 * 1445) 0))"
  by (simp add: save_capped_jpeg_def toy_codec_def cap_loop.simps MAX_JPEG_BYTES_def scale_dim_eq)

theorem save_capped_jpeg_bound_witness:
  "save_capped_jpeg toy_codec (4000, 2000) 90 = Some (Inr (replicate (2890 * 1445) 0))
   \<and> length (replicate (2890 * 1445) (0 :: 8 word)) \<le> MAX_JPEG_BYTES"
  using save_capped_jpeg_bound [OF toy_save_4000] toy_save_4000 by simp

lemma cap_loop_terminates:
  assumes resize: "\<forall>img sz img'. img_resize c img sz = Inr img' \<longrightarrow> img_size c img' = sz"
    and empty: "\<forall>img buf. img_size c img = (0, 0) \<and> img_save_jpeg c img q = Inr buf
                  \<longrightarrow> length buf \<le> MAX_JPEG_BYTES"
    and enc: "img_save_jpeg c img q = Inr buf"
  shows "cap_loop c q (img, buf) \<noteq> None"
  using enc
proof (induction "fst (img_size c img) + snd (img_size c img)" arbitrary: img buf rule: less_induct)
  case less
  show ?case
  proof (cases "length buf > MAX_JPEG_BYTES")
    case False
    then show ?thesis
      by (subst cap_loop.simps) simp
  next
    case True
    with empty less.prems have nz: "img_size c img \<noteq> (0, 0)"
      by fastforce
    let ?sz = "(scale_dim (fst (img_size c img)), scale_dim (snd (img_size c img)))"
    show ?thesis
    proof (cases "img_resize c img ?sz")
      case (Inl e)
      with True show ?thesis
        by (subst cap_loop.simps) simp
    next
      case resized: (Inr img')
      with resize have sz: "img_size c img' = ?sz"
        by blast
      show ?thesis
      proof (cases "img_save_jpeg c img' q")
        case (Inl e)
        with True resized show ?thesis
          by (subst cap_loop.simps) simp
      next
        case (Inr buf')
        from nz have "0 < fst (img_size c img) \<or> 0 < snd (img_size c img)"
          by (cases "img_size c img") auto
        then have "fst (img_size c img') + snd (img_size c img')
                     < fst (img_size c img) + snd (img_size c img)"
          using scale_dim_le [of "fst (img_size c img)"] scale_dim_le [of "snd (img_size c img)"]
            scale_dim_less [of "fst (img_size c img)"] scale_dim_less [of "snd (img_size c img)"]
          by (auto simp add: sz)
        from less.hyps [OF this Inr] True resized Inr show ?thesis
          by (subst cap_loop.simps) simp
      qed
    qed
  qed
qed

lemma save_capped_jpeg_terminates_aux:
  assumes "\<forall>img sz img'. img_resize c img sz = Inr img' \<longrightarrow> img_size c img' = sz"
    and "\<forall>img buf. img_size c img = (0, 0) \<and> img_save_jpeg c img quality = Inr buf
           \<longrightarrow> length buf \<le> MAX_JPEG_BYTES"
  shows "save_capped_jpeg c img quality \<noteq> None"
  using cap_loop_terminates [OF assms]
  by (simp add: save_capped_jpeg_def split: sum.splits)

text \<open>
  C9. The loop terminates, by returning or by raising, for every image and every quality,
  over any image library that resizes to the dimensions it is asked for whenever it does
  not raise, and that never encodes an image of size 0 by 0 in more than the ceiling.
  Pillow is such a library: it refuses a zero dimension in \<^verbatim>\<open>resize\<close> and an empty image
  when saving as JPEG, both with \<^verbatim>\<open>ValueError\<close>. No bound on the iterations is needed:
  each iteration strictly decreases a positive dimension (\<^verbatim>\<open>int(w * 0.85) < w\<close>, the
  factor being below 1), so the dimensions reach 0 by 0 after finitely many iterations
  unless the loop has ended before.
\<close>

theorem save_capped_jpeg_terminates:
  assumes "\<forall>img sz img'. img_resize c img sz = Inr img' \<longrightarrow> img_size c img' = sz"
    and "\<forall>img buf. img_size c img = (0, 0) \<and> img_save_jpeg c img quality = Inr buf
           \<longrightarrow> length buf \<le> MAX_JPEG_BYTES"
  shows "\<exists>r. save_capped_jpeg c img quality = Some r"
  using save_capped_jpeg_terminates_aux [OF assms, of img] by auto



lemma pillow_like_fields:
  "img_mode pillow_like img = ''RGB''"
  "img_size pillow_like img = img"
  "img_resize pillow_like img sz =
     (if fst sz = 0 \<or> snd sz = 0 then Inl (ValueError ''height and width must be > 0'') else Inr sz)"
  "img_save_jpeg pillow_like img q =
     (if fst img = 0 \<or> snd img = 0 then Inl (ValueError ''cannot write empty image as JPEG'')
      else Inr (replicate (Suc MAX_JPEG_BYTES) 0))"
  by (simp_all add: pillow_like_def toy_codec_def)

lemma pillow_like_resize:
  "\<forall>img sz img'. img_resize pillow_like img sz = Inr img' \<longrightarrow> img_size pillow_like img' = sz"
  by (simp add: pillow_like_fields)

lemma pillow_like_empty:
  "\<forall>img buf. img_size pillow_like img = (0, 0) \<and> img_save_jpeg pillow_like img q = Inr buf
     \<longrightarrow> length buf \<le> MAX_JPEG_BYTES"
  by (simp add: pillow_like_fields)

lemma pillow_like_3_3:
  "save_capped_jpeg pillow_like (3, 3) 90 = Some (Inl (ValueError ''height and width must be > 0''))"
  by (simp add: save_capped_jpeg_def pillow_like_fields cap_loop.simps scale_dim_eq)

text \<open>
  The example: a 3 by 3 image whose encodings all exceed the ceiling is resized to 2 by 2
  and to 1 by 1, and the next resize, to 0 by 0, raises; the loop has ended.
\<close>

theorem save_capped_jpeg_terminates_witness:
  "(\<exists>r. save_capped_jpeg pillow_like (3, 3) 90 = Some r)
   \<and> save_capped_jpeg pillow_like (3, 3) 90
       = Some (Inl (ValueError ''height and width must be > 0''))"
  using save_capped_jpeg_terminates [OF pillow_like_resize pillow_like_empty [of 90], of "(3, 3)"]
    pillow_like_3_3
  by blast

section \<open>Properties of the per-page pipeline\<close>

lemma toy_save_small:
  "w * h \<le> MAX_JPEG_BYTES \<Longrightarrow>
   save_capped_jpeg toy_codec (w, h) q = Some (Inr (replicate (w * h) 0))"
  by (simp add: save_capped_jpeg_def toy_codec_def cap_loop.simps)

lemma toy_save_20000: "save_capped_jpeg toy_codec (200, 100) 90 = Some (Inr (replicate 20000 0))"
  using toy_save_small [of 200 100 90] by (simp add: MAX_JPEG_BYTES_def)


lemma toy_rotate: "img_rotate toy_codec img angle = Inr (snd img, fst img)"
  by (simp add: toy_codec_def)

lemma toy_world_fields:
  "pil toy_world = toy_codec"
  "ori_predict toy_world n = Inr 90"
  "image_open toy_world n = Inr (100, 200)"
  "tmp_save toy_world img = None"
  "unwarp_predict toy_world input = Inr None"
  by (simp_all add: toy_world_def)

lemma leak_world_fields:
  "pil leak_world = toy_codec"
  "ori_predict leak_world n = Inr 90"
  "image_open leak_world n = Inr (100, 200)"
  "tmp_save leak_world img = None"
  "unwarp_predict leak_world input = Inl (OtherError ''unwarp failed'')"
  by (simp_all add: leak_world_def toy_world_def)

text \<open>
  C3 on a page that is rotated by 90 and whose unwarping call raises: the page is saved,
  one temporary file has been created, and it still exists when the page is done. On the
  same page with an unwarping result that is not an array the temporary file is deleted.
\<close>

theorem unwarp_failure_leaks_tmp_file:
  "(case process_page leak_world 1 1 files0 of
      Some (Inr (info, s)) \<Rightarrow> rotated info = 90 \<and> \<not> unwarped info \<and> tmp_count s = 1 \<and> tmp_files s = [0]
    | _ \<Rightarrow> False)
   \<and> (case process_page toy_world 1 1 files0 of
      Some (Inr (info, s)) \<Rightarrow> rotated info = 90 \<and> \<not> unwarped info \<and> tmp_count s = 1 \<and> tmp_files s = []
    | _ \<Rightarrow> False)"
  by (simp add: process_page_def page_try_def unwarp_stage_def leak_world_fields toy_world_fields
        toy_rotate files0_def toy_save_20000 Let_def)
















end
